theory Spec2Isabelle
  imports Main "HOL-Library.Sublist"
begin

section \<open>Go values used by the controller's command helpers\<close>

text \<open>
  The file \<^verbatim>\<open>controllers/attestation_controller_command.go\<close> holds five functions:
  \<^verbatim>\<open>GetClusterClientConfig\<close>, \<^verbatim>\<open>GetClientsetFromClusterConfig\<close>, \<^verbatim>\<open>GetClusterClientset\<close>,
  \<^verbatim>\<open>GetRESTClient\<close> and \<^verbatim>\<open>PodList\<close>. All of them are glue around client-go, \<^verbatim>\<open>os\<close>,
  \<^verbatim>\<open>path/filepath\<close> and \<^verbatim>\<open>fmt\<close>.

  A Go \<^verbatim>\<open>error\<close> is an interface value: \<^verbatim>\<open>nil\<close>, or a value with an \<^verbatim>\<open>Error()\<close> message.
  The functions below only ever test an error against \<^verbatim>\<open>nil\<close> and print it, so a non-nil
  error is represented by its message and an error variable by a \<open>go_error option\<close>.
  A Go pointer is an \<open>option\<close> as well (\<open>None\<close> is \<^verbatim>\<open>nil\<close>).
\<close>

type_synonym go_error = string

text \<open>
  \<^verbatim>\<open>fmt\<close> prints an error operand of the verbs \<^verbatim>\<open>%v\<close> and \<^verbatim>\<open>%+v\<close> as its message, and a
  \<^verbatim>\<open>nil\<close> operand as \<^verbatim>\<open><nil>\<close>. \<^verbatim>\<open>fmt.Errorf\<close> with no \<^verbatim>\<open>%w\<close> verb returns a plain error
  whose message is the formatted text.
\<close>

definition fmt_v :: "go_error option \<Rightarrow> string" where
  "fmt_v e = (case e of None \<Rightarrow> ''<nil>'' | Some m \<Rightarrow> m)"

subsection \<open>\<^verbatim>\<open>filepath.Join\<close> on a Unix target\<close>

text \<open>
  \<^verbatim>\<open>filepath.Join\<close> looks for the first non-empty element, joins the elements from there on
  with the separator and returns the \<^verbatim>\<open>Clean\<close>ed result; with no non-empty element it
  returns the empty string. \<^verbatim>\<open>Clean\<close> drops empty and \<^verbatim>\<open>.\<close> elements, lets \<^verbatim>\<open>..\<close> remove the
  element before it (at the root it is dropped, at the start of a relative path it stays),
  and turns an empty result into \<^verbatim>\<open>.\<close>.
\<close>

fun split_sep :: "string \<Rightarrow> string list" where
  "split_sep [] = [[]]"
| "split_sep (c # cs) =
     (if c = CHR ''/'' then [] # split_sep cs
      else (case split_sep cs of
              [] \<Rightarrow> [[c]]
            | e # es \<Rightarrow> (c # e) # es))"

fun strings_Join :: "string list \<Rightarrow> string \<Rightarrow> string" where
  "strings_Join [] sep = []"
| "strings_Join [e] sep = e"
| "strings_Join (e # es) sep = e @ sep @ strings_Join es sep"

definition clean_step :: "bool \<Rightarrow> string list \<Rightarrow> string \<Rightarrow> string list" where
  "clean_step rooted out e =
     (if e = [] \<or> e = ''.'' then out
      else if e = ''..'' then
        (if out \<noteq> [] \<and> last out \<noteq> ''..'' then butlast out
         else if rooted then out
         else out @ [''..''])
      else out @ [e])"

definition Clean :: "string \<Rightarrow> string" where
  "Clean path =
     (case path of
        [] \<Rightarrow> ''.''
      | c # _ \<Rightarrow>
          (let rooted = (c = CHR ''/'');
               out = strings_Join (foldl (clean_step rooted) [] (split_sep path)) ''/''
           in if rooted then CHR ''/'' # out
              else if out = [] then ''.''
              else out))"

definition filepath_Join :: "string list \<Rightarrow> string" where
  "filepath_Join elem =
     (case dropWhile (\<lambda>e. e = []) elem of
        [] \<Rightarrow> []
      | e # es \<Rightarrow> Clean (strings_Join (e # es) ''/''))"

subsection \<open>Contexts, buffers and the streamed session\<close>

text \<open>
  A \<^verbatim>\<open>context.Context\<close> is either \<^verbatim>\<open>context.Background()\<close>, which is never done, or one a
  caller made cancellable, with the state of its signal.
\<close>

datatype Context = Background | Cancellable bool

fun ctx_done :: "Context \<Rightarrow> bool" where
  "ctx_done Background = False"
| "ctx_done (Cancellable fired) = fired"

text \<open>
  A \<^verbatim>\<open>bytes.Buffer\<close> grows by \<^verbatim>\<open>Write\<close> and is read as a whole by \<^verbatim>\<open>String\<close>. The remote
  side of a session emits chunks on its two output streams, in some order in time; the
  executor writes each chunk to the sink registered for its stream.
\<close>

type_synonym Buffer = string

definition Buffer_Write :: "Buffer \<Rightarrow> string \<Rightarrow> Buffer" where
  "Buffer_Write b p = b @ p"

definition Buffer_String :: "Buffer \<Rightarrow> string" where
  "Buffer_String b = b"

datatype chunk = Stdout string | Stderr string

fun deliver :: "chunk list \<Rightarrow> Buffer \<times> Buffer \<Rightarrow> Buffer \<times> Buffer" where
  "deliver [] sinks = sinks"
| "deliver (Stdout p # cs) (out, err) = deliver cs (Buffer_Write out p, err)"
| "deliver (Stderr p # cs) (out, err) = deliver cs (out, Buffer_Write err p)"

text \<open>What the remote side emitted on each stream, taken alone.\<close>

fun emitted_stdout :: "chunk list \<Rightarrow> string" where
  "emitted_stdout [] = []"
| "emitted_stdout (Stdout p # cs) = p @ emitted_stdout cs"
| "emitted_stdout (Stderr p # cs) = emitted_stdout cs"

fun emitted_stderr :: "chunk list \<Rightarrow> string" where
  "emitted_stderr [] = []"
| "emitted_stderr (Stdout p # cs) = emitted_stderr cs"
| "emitted_stderr (Stderr p # cs) = p @ emitted_stderr cs"

text \<open>
  \<^verbatim>\<open>&rest.RESTClient{}\<close> is a pointer to the zero value of the struct; every other client
  comes from \<^verbatim>\<open>rest.RESTClientFor\<close>.
\<close>

datatype 'rc RESTClient = RESTClient_zero | RESTClient_for 'rc

subsection \<open>The world outside the file\<close>

text \<open>
  What the library calls answer is a parameter. No function of the file calls the same
  library function twice, so one answer per function (and argument) is enough.
  \<open>'cfg\<close> is \<^verbatim>\<open>rest.Config\<close>, \<open>'cs\<close> is \<^verbatim>\<open>kubernetes.Clientset\<close>, \<open>'ex\<close> is a
  \<^verbatim>\<open>remotecommand.Executor\<close> and \<open>'rc\<close> a \<^verbatim>\<open>rest.RESTClient\<close> built by the library.
  \<open>environ\<close> is the process environment; \<open>request_URL\<close> is the URL of the request
  \<^verbatim>\<open>clientset.CoreV1().RESTClient().Get().Resource(r).Namespace(n)\<close>.
  \<open>StreamWithContext\<close> answers with the chunks the session delivered before it ended and
  with the error it ended with.
\<close>

record ('cfg, 'cs, 'ex, 'rc) world =
  InClusterConfig :: "'cfg option \<times> go_error option"
  environ :: "string \<rightharpoonup> string"
  BuildConfigFromFlags :: "string \<Rightarrow> string \<Rightarrow> 'cfg option \<times> go_error option"
  NewForConfig :: "'cfg option \<Rightarrow> 'cs option \<times> go_error option"
  RESTClientFor :: "'cfg option \<Rightarrow> 'rc RESTClient option \<times> go_error option"
  request_URL :: "'cs \<Rightarrow> string \<Rightarrow> string \<Rightarrow> string"
  AddToScheme :: "go_error option"
  NewSPDYExecutor :: "'cfg option \<Rightarrow> string \<Rightarrow> string \<Rightarrow> 'ex option \<times> go_error option"
  StreamWithContext :: "'ex \<Rightarrow> Context \<Rightarrow> string option \<Rightarrow> bool \<Rightarrow> chunk list \<times> go_error option"

text \<open>\<^verbatim>\<open>os.Getenv\<close> returns the empty string for a variable that is not set.\<close>

definition Getenv :: "('cfg, 'cs, 'ex, 'rc) world \<Rightarrow> string \<Rightarrow> string" where
  "Getenv w key = (case environ w key of None \<Rightarrow> [] | Some v \<Rightarrow> v)"

text \<open>
  Every call that leaves the file is recorded, in order: the trace of a run says what was
  attempted and what was not. \<open>Request_call\<close> is the construction of the request,
  \<open>LogInfo\<close> a line written through \<^verbatim>\<open>GetLogInstance().Info\<close>, by its message (the
  logger is defined elsewhere in the package; it is taken to write the line and return).
\<close>

datatype ('cfg, 'cs, 'ex) call =
    InClusterConfig_call
  | Getenv_call string
  | BuildConfigFromFlags_call string string
  | NewForConfig_call "'cfg option"
  | RESTClientFor_call "'cfg option"
  | LogInfo string
  | Request_call 'cs string string
  | AddToScheme_call
  | NewSPDYExecutor_call "'cfg option" string string
  | StreamWithContext_call 'ex Context "string option" bool

fun is_InClusterConfig_call :: "('cfg, 'cs, 'ex) call \<Rightarrow> bool" where
  "is_InClusterConfig_call InClusterConfig_call = True"
| "is_InClusterConfig_call _ = False"

fun is_BuildConfigFromFlags_call :: "('cfg, 'cs, 'ex) call \<Rightarrow> bool" where
  "is_BuildConfigFromFlags_call (BuildConfigFromFlags_call _ _) = True"
| "is_BuildConfigFromFlags_call _ = False"

section \<open>The functions of the file\<close>

definition GetClusterClientConfig ::
  "('cfg, 'cs, 'ex, 'rc) world \<Rightarrow> ('cfg option \<times> go_error option) \<times> ('cfg, 'cs, 'ex) call list"
where
  "GetClusterClientConfig w =
     (let (config, err) = InClusterConfig w in
      if err \<noteq> None then
        let err1 = err;
            kubeconfig = filepath_Join [Getenv w ''HOME'', ''.kube'', ''config''];
            (config, err) = BuildConfigFromFlags w [] kubeconfig;
            tr = [InClusterConfig_call, Getenv_call ''HOME'', BuildConfigFromFlags_call [] kubeconfig]
        in if err \<noteq> None then
             ((None,
               Some (''InClusterConfig as well as BuildConfigFromFlags Failed. Error in InClusterConfig: ''
                 @ fmt_v err1 @ ''\<newline>Error in BuildConfigFromFlags: '' @ fmt_v err)), tr)
           else ((config, None), tr)
      else ((config, None), [InClusterConfig_call]))"

definition GetClientsetFromClusterConfig ::
  "('cfg, 'cs, 'ex, 'rc) world \<Rightarrow> 'cfg option \<Rightarrow>
     ('cs option \<times> go_error option) \<times> ('cfg, 'cs, 'ex) call list"
where
  "GetClientsetFromClusterConfig w config =
     (let (clientset, err) = NewForConfig w config in
      if err \<noteq> None then
        ((None, Some (''failed creating clientset. Error: '' @ fmt_v err)), [NewForConfig_call config])
      else ((clientset, None), [NewForConfig_call config]))"

definition GetClusterClientset ::
  "('cfg, 'cs, 'ex, 'rc) world \<Rightarrow> ('cs option \<times> go_error option) \<times> ('cfg, 'cs, 'ex) call list"
where
  "GetClusterClientset w =
     (let ((config, err), t1) = GetClusterClientConfig w in
      if err \<noteq> None then ((None, err), t1)
      else let (r, t2) = GetClientsetFromClusterConfig w config in (r, t1 @ t2))"

definition GetRESTClient ::
  "('cfg, 'cs, 'ex, 'rc) world \<Rightarrow>
     ('rc RESTClient option \<times> go_error option) \<times> ('cfg, 'cs, 'ex) call list"
where
  "GetRESTClient w =
     (let ((config, err), t1) = GetClusterClientConfig w in
      if err \<noteq> None then ((Some RESTClient_zero, err), t1)
      else (RESTClientFor w config, t1 @ [RESTClientFor_call config]))"

text \<open>
  \<^verbatim>\<open>PodList\<close> returns two strings and an error. One path does not return: an executor
  that is \<^verbatim>\<open>nil\<close> although \<^verbatim>\<open>NewSPDYExecutor\<close> reported no error makes the method call on
  it panic.

  The variable \<open>err\<close> of the function body is assigned by \<^verbatim>\<open>GetClusterClientConfig\<close>, then
  by \<^verbatim>\<open>GetClientsetFromClusterConfig\<close>, and next by \<^verbatim>\<open>StreamWithContext\<close>. The scheme
  registration binds an \<open>err\<close> of its own, local to its \<^verbatim>\<open>if\<close> statement (\<open>scheme_err\<close>
  below), and the executor's error goes to \<open>spdyerr\<close>.
\<close>

datatype outcome = Returned string string "go_error option" | Panicked

definition PodList ::
  "('cfg, 'cs, 'ex, 'rc) world \<Rightarrow> string \<Rightarrow> string option \<Rightarrow> outcome \<times> ('cfg, 'cs, 'ex) call list"
where
  "PodList w namespace stdin =
     (let ((config, err), t1) = GetClusterClientConfig w in
      if err \<noteq> None then
        (Returned [] [] err, t1 @ [LogInfo ''Unable to get ClusterClientConfig''])
      else if config = None then
        (Returned [] [] (Some ''nil config''), t1 @ [LogInfo ''Unable to get config''])
      else
        let ((clientset, err), t2) = GetClientsetFromClusterConfig w config in
        if err \<noteq> None then
          (Returned [] [] err, t1 @ t2 @ [LogInfo ''Unable to get ClientSetFromClusterConfig''])
        else
          (case clientset of
             None \<Rightarrow> (Returned [] [] (Some ''nil clientset''), t1 @ t2 @ [LogInfo ''Clientset is null''])
           | Some cs \<Rightarrow>
               let t3 = t1 @ t2 @ [Request_call cs ''pods'' namespace, AddToScheme_call];
                   scheme_err = AddToScheme w
               in if scheme_err \<noteq> None then
                    (Returned [] [] (Some (''error adding to scheme: '' @ fmt_v scheme_err)),
                     t3 @ [LogInfo ''Unable to add scheme''])
                  else
                    let url = request_URL w cs ''pods'' namespace;
                        (exec, spdyerr) = NewSPDYExecutor w config ''GET'' url;
                        t4 = t3 @ [LogInfo ''Dumping request'', NewSPDYExecutor_call config ''GET'' url]
                    in if spdyerr \<noteq> None then
                         (Returned [] [] (Some (''error while creating Executor: '' @ fmt_v err)), t4)
                       else
                         (case exec of
                            None \<Rightarrow> (Panicked, t4)
                          | Some ex \<Rightarrow>
                              let (chunks, err) = StreamWithContext w ex Background stdin False;
                                  (stdout, stderr) = deliver chunks ([], []);
                                  t5 = t4 @ [StreamWithContext_call ex Background stdin False]
                              in if err \<noteq> None then
                                   (Returned [] [] (Some (''error in Stream: '' @ fmt_v err)), t5)
                                 else
                                   (Returned (Buffer_String stdout) (Buffer_String stderr) None, t5))))"

subsection \<open>Reading a trace\<close>

text \<open>
  The session of one call goes \<^verbatim>\<open>Idle\<close>, \<^verbatim>\<open>RequestBuilt\<close>, \<^verbatim>\<open>Upgraded\<close>, \<^verbatim>\<open>Streaming\<close>. The
  request is built at \<open>Request_call\<close>, the upgrade is negotiated by the executor made at
  \<open>NewSPDYExecutor_call\<close> and the session streams at \<open>StreamWithContext_call\<close>; the last
  two are the calls that reach for the network.
\<close>

fun is_Request_call :: "('cfg, 'cs, 'ex) call \<Rightarrow> bool" where
  "is_Request_call (Request_call _ _ _) = True"
| "is_Request_call _ = False"

fun is_AddToScheme_call :: "('cfg, 'cs, 'ex) call \<Rightarrow> bool" where
  "is_AddToScheme_call AddToScheme_call = True"
| "is_AddToScheme_call _ = False"

fun is_NewSPDYExecutor_call :: "('cfg, 'cs, 'ex) call \<Rightarrow> bool" where
  "is_NewSPDYExecutor_call (NewSPDYExecutor_call _ _ _) = True"
| "is_NewSPDYExecutor_call _ = False"

fun is_StreamWithContext_call :: "('cfg, 'cs, 'ex) call \<Rightarrow> bool" where
  "is_StreamWithContext_call (StreamWithContext_call _ _ _ _) = True"
| "is_StreamWithContext_call _ = False"

definition entered_Streaming :: "('cfg, 'cs, 'ex) call list \<Rightarrow> bool" where
  "entered_Streaming tr = (filter is_StreamWithContext_call tr \<noteq> [])"

definition network_contact :: "('cfg, 'cs, 'ex) call list \<Rightarrow> bool" where
  "network_contact tr =
     (filter is_NewSPDYExecutor_call tr \<noteq> [] \<or> filter is_StreamWithContext_call tr \<noteq> [])"

definition request_constructed :: "('cfg, 'cs, 'ex) call list \<Rightarrow> bool" where
  "request_constructed tr = (filter is_Request_call tr \<noteq> [])"

fun stream_contexts :: "('cfg, 'cs, 'ex) call list \<Rightarrow> Context list" where
  "stream_contexts [] = []"
| "stream_contexts (StreamWithContext_call _ ctx _ _ # tr) = ctx # stream_contexts tr"
| "stream_contexts (_ # tr) = stream_contexts tr"

text \<open>
  The error of the streaming phase is the one built with the text \<^verbatim>\<open>error in Stream: \<close>
  in front of its cause; the file has no other mark for the class of an error.
\<close>

definition is_StreamError :: "go_error option \<Rightarrow> bool" where
  "is_StreamError e = (case e of None \<Rightarrow> False | Some m \<Rightarrow> prefix ''error in Stream: '' m)"

section \<open>Worlds to run the functions in\<close>

text \<open>
  A pod of the cluster: the service account is mounted, every library call succeeds, and
  the session emits one line on stdout. Its executor honours the context it is given.
\<close>

definition cluster_world :: "(string, string, string, string) world" where
  "cluster_world =
     \<lparr> InClusterConfig = (Some ''https://10.96.0.1:443'', None),
       environ = [''HOME'' \<mapsto> ''/root''],
       BuildConfigFromFlags =
         (\<lambda>masterUrl path. (None, Some (''stat '' @ path @ '': no such file or directory''))),
       NewForConfig =
         (\<lambda>config. case config of
            None \<Rightarrow> (None, Some ''config is nil'')
          | Some host \<Rightarrow> (Some (''clientset of '' @ host), None)),
       RESTClientFor =
         (\<lambda>config. case config of
            None \<Rightarrow> (None, Some ''config is nil'')
          | Some host \<Rightarrow> (Some (RESTClient_for host), None)),
       request_URL = (\<lambda>cs resource ns. ''/api/v1/namespaces/'' @ ns @ ''/'' @ resource),
       AddToScheme = None,
       NewSPDYExecutor = (\<lambda>config method url. (Some (method @ '' '' @ url), None)),
       StreamWithContext =
         (\<lambda>ex ctx stdin tty.
            if ctx_done ctx then ([], Some ''context canceled'')
            else ([Stdout ''hello\<newline>''], None)) \<rparr>"

text \<open>A machine outside the cluster, with no \<^verbatim>\<open>HOME\<close> and no kubeconfig file.\<close>

definition laptop_world :: "(string, string, string, string) world" where
  "laptop_world =
     cluster_world
       \<lparr> InClusterConfig := (None, Some ''unable to load in-cluster configuration''),
         environ := Map.empty \<rparr>"

text \<open>Library calls that report success and hand back \<^verbatim>\<open>nil\<close>.\<close>

definition nil_config_world :: "(string, string, string, string) world" where
  "nil_config_world = cluster_world \<lparr> InClusterConfig := (None, None) \<rparr>"

definition nil_clientset_world :: "(string, string, string, string) world" where
  "nil_clientset_world = cluster_world \<lparr> NewForConfig := (\<lambda>config. (None, None)) \<rparr>"

text \<open>The scheme registration fails.\<close>

definition bad_scheme_world :: "(string, string, string, string) world" where
  "bad_scheme_world = cluster_world \<lparr> AddToScheme := Some ''type already registered'' \<rparr>"

text \<open>The executor cannot be made: the transport's certificate data is unusable.\<close>

definition bad_transport_world :: "(string, string, string, string) world" where
  "bad_transport_world =
     cluster_world
       \<lparr> NewSPDYExecutor :=
           (\<lambda>config method url. (None, Some ''tls: failed to find any PEM data in certificate input'')) \<rparr>"

text \<open>
  After three bytes of stdout the server sends a failure status on the error stream of the
  session, and the executor returns it as the error of the call.
\<close>

definition failed_status_world :: "(string, string, string, string) world" where
  "failed_status_world =
     cluster_world
       \<lparr> StreamWithContext :=
           (\<lambda>ex ctx stdin tty. ([Stdout ''hel''], Some ''Internal error occurred'')) \<rparr>"

text \<open>
  The connection drops after three bytes of stdout. The executor only logs an error of the
  copy into a sink; the error of the call is what the error stream of the session yields,
  and at the end of that stream it is \<^verbatim>\<open>nil\<close>.
\<close>

definition dropped_world :: "(string, string, string, string) world" where
  "dropped_world =
     cluster_world \<lparr> StreamWithContext := (\<lambda>ex ctx stdin tty. ([Stdout ''hel''], None)) \<rparr>"

text \<open>A session whose two streams alternate in time.\<close>

definition chatty_world :: "(string, string, string, string) world" where
  "chatty_world =
     cluster_world
       \<lparr> StreamWithContext :=
           (\<lambda>ex ctx stdin tty. ([Stdout ''a'', Stderr ''x'', Stdout ''b'', Stderr ''y''], None)) \<rparr>"

section \<open>Facts about the traces and the buffers\<close>

lemma GetClusterClientConfig_trace:
  "snd (GetClusterClientConfig w) = [InClusterConfig_call] \<or>
   snd (GetClusterClientConfig w) =
     [InClusterConfig_call, Getenv_call ''HOME'',
      BuildConfigFromFlags_call [] (filepath_Join [Getenv w ''HOME'', ''.kube'', ''config''])]"
  by (simp add: GetClusterClientConfig_def Let_def split: prod.splits)

lemma GetClientsetFromClusterConfig_trace:
  "snd (GetClientsetFromClusterConfig w config) = [NewForConfig_call config]"
  by (simp add: GetClientsetFromClusterConfig_def Let_def split: prod.splits)

text \<open>Each sink ends with what its own stream emitted, whatever the order in time.\<close>

lemma deliver_emitted:
  "deliver cs (out, err) = (out @ emitted_stdout cs, err @ emitted_stderr cs)"
  by (induction cs "(out, err)" arbitrary: out err rule: deliver.induct)
     (simp_all add: Buffer_Write_def)

text \<open>
  A run of \<^verbatim>\<open>PodList\<close> that streams does so on the background context, with the caller's
  stdin and no TTY, and returns what the stream's end decides.
\<close>

lemma PodList_stream_phase:
  assumes "StreamWithContext_call ex ctx i tty \<in> set (snd (PodList w ns stdin))"
  shows "ctx = Background \<and> i = stdin \<and> tty = False \<and>
     fst (PodList w ns stdin) =
       (case StreamWithContext w ex Background stdin False of
          (chunks, None) \<Rightarrow> Returned (emitted_stdout chunks) (emitted_stderr chunks) None
        | (chunks, Some e) \<Rightarrow> Returned [] [] (Some (''error in Stream: '' @ e)))"
proof -
  obtain config err t1 where g: "GetClusterClientConfig w = ((config, err), t1)"
    by (metis surj_pair)
  obtain clientset err2 t2 where c: "GetClientsetFromClusterConfig w config = ((clientset, err2), t2)"
    by (metis surj_pair)
  have t1: "StreamWithContext_call ex ctx i tty \<notin> set t1"
    using GetClusterClientConfig_trace [of w] g by auto
  have t2: "StreamWithContext_call ex ctx i tty \<notin> set t2"
    using GetClientsetFromClusterConfig_trace [of w config] c by auto
  show ?thesis
    using assms t1 t2 g c
    by (auto simp: PodList_def Let_def deliver_emitted Buffer_String_def fmt_v_def
             split: prod.splits option.splits if_splits)
qed

lemma stream_contexts_mem:
  "ctx \<in> set (stream_contexts tr) \<Longrightarrow> \<exists>ex i tty. StreamWithContext_call ex ctx i tty \<in> set tr"
  by (induction tr rule: stream_contexts.induct) auto

text \<open>A run that registers the scheme and is refused stops right there.\<close>

lemma PodList_scheme_phase:
  assumes "AddToScheme_call \<in> set (snd (PodList w ns stdin))" and "AddToScheme w = Some e"
  shows "\<exists>t1 t2 cs. PodList w ns stdin =
      (Returned [] [] (Some (''error adding to scheme: '' @ e)),
       t1 @ t2 @ [Request_call cs ''pods'' ns, AddToScheme_call, LogInfo ''Unable to add scheme''])
     \<and> t1 = snd (GetClusterClientConfig w) \<and> (\<exists>c. t2 = [NewForConfig_call c])"
proof -
  obtain config err t1 where g: "GetClusterClientConfig w = ((config, err), t1)"
    by (metis surj_pair)
  obtain clientset err2 t2 where c: "GetClientsetFromClusterConfig w config = ((clientset, err2), t2)"
    by (metis surj_pair)
  have t1: "AddToScheme_call \<notin> set t1"
    using GetClusterClientConfig_trace [of w] g by auto
  have t2: "t2 = [NewForConfig_call config]"
    using GetClientsetFromClusterConfig_trace [of w config] c by auto
  show ?thesis
    using assms t1 t2 g c
    by (auto simp: PodList_def Let_def fmt_v_def split: prod.splits option.splits if_splits)
qed

text \<open>The two guards against \<^verbatim>\<open>nil\<close>.\<close>

lemma PodList_nil_config:
  assumes "GetClusterClientConfig w = ((None, None), t1)"
  shows "PodList w ns stdin =
     (Returned [] [] (Some ''nil config''), t1 @ [LogInfo ''Unable to get config''])"
  using assms by (simp add: PodList_def)

lemma PodList_nil_clientset:
  assumes "GetClusterClientConfig w = ((Some cfg, None), t1)"
    and "GetClientsetFromClusterConfig w (Some cfg) = ((None, None), t2)"
  shows "PodList w ns stdin =
     (Returned [] [] (Some ''nil clientset''), t1 @ t2 @ [LogInfo ''Clientset is null''])"
  using assms by (simp add: PodList_def)

text \<open>The two early returns on an error.\<close>

lemma PodList_resolution_error:
  assumes "GetClusterClientConfig w = ((config, Some e), t1)"
  shows "PodList w ns stdin =
     (Returned [] [] (Some e), t1 @ [LogInfo ''Unable to get ClusterClientConfig''])"
  using assms by (simp add: PodList_def)

lemma PodList_clientset_error:
  assumes "GetClusterClientConfig w = ((Some cfg, None), t1)"
    and "GetClientsetFromClusterConfig w (Some cfg) = ((clientset, Some e), t2)"
  shows "PodList w ns stdin =
     (Returned [] [] (Some e), t1 @ t2 @ [LogInfo ''Unable to get ClientSetFromClusterConfig''])"
  using assms by (simp add: PodList_def)

text \<open>The runs in the pod, with a clean session and with one the server fails.\<close>

lemma cluster_world_trace:
  "snd (PodList cluster_world ''default'' None) =
     [InClusterConfig_call, NewForConfig_call (Some ''https://10.96.0.1:443''),
      Request_call ''clientset of https://10.96.0.1:443'' ''pods'' ''default'', AddToScheme_call,
      LogInfo ''Dumping request'',
      NewSPDYExecutor_call (Some ''https://10.96.0.1:443'') ''GET'' ''/api/v1/namespaces/default/pods'',
      StreamWithContext_call ''GET /api/v1/namespaces/default/pods'' Background None False]"
  by (simp add: PodList_def GetClusterClientConfig_def GetClientsetFromClusterConfig_def
        cluster_world_def Let_def)

lemma chatty_world_trace:
  "snd (PodList chatty_world ''default'' None) =
     [InClusterConfig_call, NewForConfig_call (Some ''https://10.96.0.1:443''),
      Request_call ''clientset of https://10.96.0.1:443'' ''pods'' ''default'', AddToScheme_call,
      LogInfo ''Dumping request'',
      NewSPDYExecutor_call (Some ''https://10.96.0.1:443'') ''GET'' ''/api/v1/namespaces/default/pods'',
      StreamWithContext_call ''GET /api/v1/namespaces/default/pods'' Background None False]"
  by (simp add: PodList_def GetClusterClientConfig_def GetClientsetFromClusterConfig_def
        chatty_world_def cluster_world_def Let_def)

lemma failed_status_world_trace:
  "snd (PodList failed_status_world ''default'' None) =
     [InClusterConfig_call, NewForConfig_call (Some ''https://10.96.0.1:443''),
      Request_call ''clientset of https://10.96.0.1:443'' ''pods'' ''default'', AddToScheme_call,
      LogInfo ''Dumping request'',
      NewSPDYExecutor_call (Some ''https://10.96.0.1:443'') ''GET'' ''/api/v1/namespaces/default/pods'',
      StreamWithContext_call ''GET /api/v1/namespaces/default/pods'' Background None False]"
  by (simp add: PodList_def GetClusterClientConfig_def GetClientsetFromClusterConfig_def
        failed_status_world_def cluster_world_def Let_def)

lemma failed_status_world_stream:
  "StreamWithContext failed_status_world ''GET /api/v1/namespaces/default/pods'' Background None False
     = ([Stdout ''hel''], Some ''Internal error occurred'')"
  by (simp add: failed_status_world_def cluster_world_def)

lemma laptop_world_resolution:
  "GetClusterClientConfig laptop_world =
     ((None,
       Some (''InClusterConfig as well as BuildConfigFromFlags Failed. Error in InClusterConfig: ''
         @ ''unable to load in-cluster configuration''
         @ ''\<newline>Error in BuildConfigFromFlags: ''
         @ ''stat .kube/config: no such file or directory'')),
      [InClusterConfig_call, Getenv_call ''HOME'', BuildConfigFromFlags_call [] ''.kube/config''])"
  by (simp add: GetClusterClientConfig_def laptop_world_def cluster_world_def Let_def
        fmt_v_def Getenv_def filepath_Join_def Clean_def clean_step_def)

section \<open>Credential resolution\<close>

text \<open>
  C3. When the in-cluster discovery succeeds, \<^verbatim>\<open>GetClusterClientConfig\<close> returns the
  configuration of that discovery at once: the only call it makes is \<^verbatim>\<open>InClusterConfig\<close>,
  and the kubeconfig file is not tried. In every run each of the two methods is tried at
  most once.
\<close>

theorem GetClusterClientConfig_in_cluster_first:
  "(InClusterConfig w = (config, None) \<longrightarrow>
      GetClusterClientConfig w = ((config, None), [InClusterConfig_call]) \<and>
      filter is_BuildConfigFromFlags_call (snd (GetClusterClientConfig w)) = [])
   \<and> length (filter is_InClusterConfig_call (snd (GetClusterClientConfig w))) \<le> 1
   \<and> length (filter is_BuildConfigFromFlags_call (snd (GetClusterClientConfig w))) \<le> 1"
proof -
  have once: "length (filter is_InClusterConfig_call (snd (GetClusterClientConfig w))) \<le> 1
      \<and> length (filter is_BuildConfigFromFlags_call (snd (GetClusterClientConfig w))) \<le> 1"
    using GetClusterClientConfig_trace [of w] by auto
  have first: "InClusterConfig w = (config, None) \<longrightarrow>
      GetClusterClientConfig w = ((config, None), [InClusterConfig_call])"
    by (simp add: GetClusterClientConfig_def)
  from once first show ?thesis by auto
qed

theorem GetClusterClientConfig_in_cluster_first_witness:
  "InClusterConfig cluster_world = (Some ''https://10.96.0.1:443'', None)
   \<and> GetClusterClientConfig cluster_world =
       ((Some ''https://10.96.0.1:443'', None), [InClusterConfig_call])
   \<and> filter is_BuildConfigFromFlags_call (snd (GetClusterClientConfig cluster_world)) = []"
  using GetClusterClientConfig_in_cluster_first [of cluster_world "Some ''https://10.96.0.1:443''"]
  by (simp add: cluster_world_def)

text \<open>
  C4. When the in-cluster discovery and the kubeconfig file both fail,
  \<^verbatim>\<open>GetClusterClientConfig\<close> returns a \<^verbatim>\<open>nil\<close> configuration and one error. The message of
  that error holds the message of each of the two failures, each after a label that names
  the method it came from (\<^verbatim>\<open>InClusterConfig\<close>, \<^verbatim>\<open>BuildConfigFromFlags\<close>).
\<close>

theorem GetClusterClientConfig_both_fail:
  assumes "InClusterConfig w = (c1, Some e1)"
    and "BuildConfigFromFlags w [] (filepath_Join [Getenv w ''HOME'', ''.kube'', ''config''])
           = (c2, Some e2)"
  shows "\<exists>msg. fst (GetClusterClientConfig w) = (None, Some msg)
     \<and> msg = ''InClusterConfig as well as BuildConfigFromFlags Failed. Error in InClusterConfig: ''
           @ e1 @ ''\<newline>Error in BuildConfigFromFlags: '' @ e2
     \<and> sublist e1 msg \<and> sublist e2 msg
     \<and> sublist ''Error in InClusterConfig: '' msg
     \<and> sublist ''Error in BuildConfigFromFlags: '' msg"
proof -
  let ?a = "''InClusterConfig as well as BuildConfigFromFlags Failed. ''"
  let ?b = "''Error in InClusterConfig: ''"
  let ?c = "''Error in BuildConfigFromFlags: ''"
  let ?msg = "?a @ ?b @ e1 @ ''\<newline>'' @ ?c @ e2"
  have r: "fst (GetClusterClientConfig w) = (None, Some ?msg)"
    using assms by (simp add: GetClusterClientConfig_def Let_def fmt_v_def)
  have s1: "sublist e1 ?msg"
    using sublist_appendI [of e1 "?a @ ?b" "''\<newline>'' @ ?c @ e2"] by simp
  have s2: "sublist e2 ?msg"
    using sublist_appendI [of e2 "?a @ ?b @ e1 @ ''\<newline>'' @ ?c" "[]"] by simp
  have s3: "sublist ?b ?msg"
    using sublist_appendI [of ?b ?a "e1 @ ''\<newline>'' @ ?c @ e2"] by simp
  have s4: "sublist ?c ?msg"
    using sublist_appendI [of ?c "?a @ ?b @ e1 @ ''\<newline>''" e2] by simp
  from r s1 s2 s3 s4 show ?thesis by simp
qed

theorem GetClusterClientConfig_both_fail_witness:
  "fst (GetClusterClientConfig laptop_world) =
     (None,
      Some (''InClusterConfig as well as BuildConfigFromFlags Failed. Error in InClusterConfig: ''
        @ ''unable to load in-cluster configuration''
        @ ''\<newline>Error in BuildConfigFromFlags: ''
        @ ''stat .kube/config: no such file or directory''))"
proof -
  have a: "InClusterConfig laptop_world = (None, Some ''unable to load in-cluster configuration'')"
    by (simp add: laptop_world_def cluster_world_def)
  have b: "BuildConfigFromFlags laptop_world []
      (filepath_Join [Getenv laptop_world ''HOME'', ''.kube'', ''config''])
      = (None, Some ''stat .kube/config: no such file or directory'')"
    by (simp add: laptop_world_def cluster_world_def Getenv_def filepath_Join_def Clean_def
          clean_step_def)
  from GetClusterClientConfig_both_fail [OF a b] show ?thesis by auto
qed

text \<open>
  C10. The kubeconfig path is \<^verbatim>\<open>filepath.Join\<close> of the value of \<^verbatim>\<open>HOME\<close>, \<^verbatim>\<open>.kube\<close> and
  \<^verbatim>\<open>config\<close>. With \<^verbatim>\<open>HOME\<close> unset or empty the fallback is tried on the relative path
  \<^verbatim>\<open>.kube/config\<close>, which the process resolves against its working directory.
\<close>

theorem GetClusterClientConfig_kubeconfig_path:
  assumes "snd (InClusterConfig w) \<noteq> None"
  shows "snd (GetClusterClientConfig w) =
       [InClusterConfig_call, Getenv_call ''HOME'',
        BuildConfigFromFlags_call [] (filepath_Join [Getenv w ''HOME'', ''.kube'', ''config''])]
     \<and> (environ w ''HOME'' = None \<or> environ w ''HOME'' = Some [] \<longrightarrow>
          filepath_Join [Getenv w ''HOME'', ''.kube'', ''config''] = ''.kube/config''
          \<and> snd (GetClusterClientConfig w) =
              [InClusterConfig_call, Getenv_call ''HOME'',
               BuildConfigFromFlags_call [] ''.kube/config''])"
proof -
  have tr: "snd (GetClusterClientConfig w) =
       [InClusterConfig_call, Getenv_call ''HOME'',
        BuildConfigFromFlags_call [] (filepath_Join [Getenv w ''HOME'', ''.kube'', ''config''])]"
    using assms by (auto simp: GetClusterClientConfig_def Let_def split: prod.splits)
  have rel: "filepath_Join [[], ''.kube'', ''config''] = ''.kube/config''"
    by (simp add: filepath_Join_def Clean_def clean_step_def)
  have "environ w ''HOME'' = None \<or> environ w ''HOME'' = Some [] \<longrightarrow> Getenv w ''HOME'' = []"
    by (auto simp: Getenv_def)
  with tr rel show ?thesis by auto
qed

theorem GetClusterClientConfig_kubeconfig_path_witness:
  "snd (GetClusterClientConfig laptop_world) =
     [InClusterConfig_call, Getenv_call ''HOME'', BuildConfigFromFlags_call [] ''.kube/config'']
   \<and> snd (GetClusterClientConfig (laptop_world \<lparr> environ := [''HOME'' \<mapsto> ''/home/dev''] \<rparr>)) =
     [InClusterConfig_call, Getenv_call ''HOME'',
      BuildConfigFromFlags_call [] ''/home/dev/.kube/config'']"
proof -
  have a: "snd (InClusterConfig laptop_world) \<noteq> None"
    by (simp add: laptop_world_def cluster_world_def)
  have b: "environ laptop_world ''HOME'' = None"
    by (simp add: laptop_world_def cluster_world_def)
  have c: "snd (InClusterConfig (laptop_world \<lparr> environ := [''HOME'' \<mapsto> ''/home/dev''] \<rparr>)) \<noteq> None"
    by (simp add: laptop_world_def cluster_world_def)
  have d: "filepath_Join
      [Getenv (laptop_world \<lparr> environ := [''HOME'' \<mapsto> ''/home/dev''] \<rparr>) ''HOME'', ''.kube'', ''config'']
      = ''/home/dev/.kube/config''"
    by (simp add: Getenv_def filepath_Join_def Clean_def clean_step_def)
  show ?thesis
    using GetClusterClientConfig_kubeconfig_path [OF a]
      GetClusterClientConfig_kubeconfig_path [OF c] b d
    by simp
qed

text \<open>
  C9. When the resolution fails, \<^verbatim>\<open>GetRESTClient\<close> returns the error together with a
  pointer to an empty \<^verbatim>\<open>RESTClient\<close>, which is not \<^verbatim>\<open>nil\<close>; \<^verbatim>\<open>GetClusterClientset\<close>
  returns the same error with a \<^verbatim>\<open>nil\<close> client, and so does
  \<^verbatim>\<open>GetClientsetFromClusterConfig\<close> with every error of its own.
\<close>

theorem GetRESTClient_non_nil_on_failure:
  assumes "snd (fst (GetClusterClientConfig w)) = Some e"
  shows "fst (GetRESTClient w) = (Some RESTClient_zero, Some e)
     \<and> fst (fst (GetRESTClient w)) \<noteq> None
     \<and> fst (GetClusterClientset w) = (None, Some e)
     \<and> (snd (fst (GetClientsetFromClusterConfig w config)) \<noteq> None
          \<longrightarrow> fst (fst (GetClientsetFromClusterConfig w config)) = None)"
  using assms
  by (auto simp: GetRESTClient_def GetClusterClientset_def GetClientsetFromClusterConfig_def Let_def
           split: prod.splits if_splits)

theorem GetRESTClient_non_nil_on_failure_witness:
  "fst (GetRESTClient laptop_world) =
     (Some RESTClient_zero,
      Some (''InClusterConfig as well as BuildConfigFromFlags Failed. Error in InClusterConfig: ''
        @ ''unable to load in-cluster configuration''
        @ ''\<newline>Error in BuildConfigFromFlags: ''
        @ ''stat .kube/config: no such file or directory''))
   \<and> fst (GetClusterClientset laptop_world) =
     (None,
      Some (''InClusterConfig as well as BuildConfigFromFlags Failed. Error in InClusterConfig: ''
        @ ''unable to load in-cluster configuration''
        @ ''\<newline>Error in BuildConfigFromFlags: ''
        @ ''stat .kube/config: no such file or directory''))
   \<and> fst (GetClientsetFromClusterConfig laptop_world None) =
     (None, Some ''failed creating clientset. Error: config is nil'')"
proof -
  have a: "snd (fst (GetClusterClientConfig laptop_world)) =
     Some (''InClusterConfig as well as BuildConfigFromFlags Failed. Error in InClusterConfig: ''
        @ ''unable to load in-cluster configuration''
        @ ''\<newline>Error in BuildConfigFromFlags: ''
        @ ''stat .kube/config: no such file or directory'')"
    by (simp add: laptop_world_resolution)
  have b: "fst (GetClientsetFromClusterConfig laptop_world None) =
      (None, Some ''failed creating clientset. Error: config is nil'')"
    by (simp add: GetClientsetFromClusterConfig_def laptop_world_def cluster_world_def fmt_v_def)
  show ?thesis
    using GetRESTClient_non_nil_on_failure [OF a, of None] b by simp
qed

section \<open>The pod list call\<close>

text \<open>
  C8. When the configuration that comes out of the resolution is \<^verbatim>\<open>nil\<close>, or the clientset
  that comes out of the client construction is \<^verbatim>\<open>nil\<close>, \<^verbatim>\<open>PodList\<close> returns empty stdout
  and stderr with an error; no request has been constructed and neither the executor nor
  the stream has been called. Where the \<^verbatim>\<open>nil\<close> came with no error, the error returned is
  \<^verbatim>\<open>nil config\<close> or \<^verbatim>\<open>nil clientset\<close>.
\<close>

theorem PodList_nil_config_or_clientset:
  assumes "fst (fst (GetClusterClientConfig w)) = None \<or>
     (\<exists>cfg. fst (GetClusterClientConfig w) = (Some cfg, None)
        \<and> fst (fst (GetClientsetFromClusterConfig w (Some cfg))) = None)"
  shows "(\<exists>e. fst (PodList w ns stdin) = Returned [] [] (Some e))
     \<and> (fst (GetClusterClientConfig w) = (None, None) \<longrightarrow>
          fst (PodList w ns stdin) = Returned [] [] (Some ''nil config''))
     \<and> (\<forall>cfg. fst (GetClusterClientConfig w) = (Some cfg, None)
            \<and> fst (GetClientsetFromClusterConfig w (Some cfg)) = (None, None) \<longrightarrow>
          fst (PodList w ns stdin) = Returned [] [] (Some ''nil clientset''))
     \<and> \<not> request_constructed (snd (PodList w ns stdin))
     \<and> \<not> network_contact (snd (PodList w ns stdin))"
proof -
  obtain config err t1 where g: "GetClusterClientConfig w = ((config, err), t1)"
    by (metis surj_pair)
  have t1: "filter is_Request_call t1 = [] \<and> filter is_NewSPDYExecutor_call t1 = []
      \<and> filter is_StreamWithContext_call t1 = []"
    using GetClusterClientConfig_trace [of w] g by auto
  show ?thesis
  proof (cases err)
    case (Some e)
    from PodList_resolution_error [OF g [unfolded Some], of ns stdin] g Some t1 show ?thesis
      by (simp add: request_constructed_def network_contact_def)
  next
    case None
    note errNone = None
    show ?thesis
    proof (cases config)
      case None
      with g errNone have g': "GetClusterClientConfig w = ((None, None), t1)" by simp
      from PodList_nil_config [OF g', of ns stdin] g' t1 show ?thesis
        by (simp add: request_constructed_def network_contact_def)
    next
      case (Some cfg)
      with g errNone have g': "GetClusterClientConfig w = ((Some cfg, None), t1)" by simp
      obtain clientset err2 where c: "GetClientsetFromClusterConfig w (Some cfg) =
          ((clientset, err2), [NewForConfig_call (Some cfg)])"
        using GetClientsetFromClusterConfig_trace [of w "Some cfg"] by (metis prod.collapse)
      from assms g' c have cn: "clientset = None" by simp
      show ?thesis
      proof (cases err2)
        case None
        from PodList_nil_clientset [OF g' c [unfolded cn None], of ns stdin] g' c cn None t1
        show ?thesis
          by (simp add: request_constructed_def network_contact_def)
      next
        case (Some e2)
        from PodList_clientset_error [OF g' c [unfolded Some], of ns stdin] g' c cn Some t1
        show ?thesis
          by (simp add: request_constructed_def network_contact_def)
      qed
    qed
  qed
qed

theorem PodList_nil_config_or_clientset_witness:
  "fst (PodList nil_config_world ''default'' None) = Returned [] [] (Some ''nil config'')
   \<and> \<not> request_constructed (snd (PodList nil_config_world ''default'' None))
   \<and> \<not> network_contact (snd (PodList nil_config_world ''default'' None))
   \<and> fst (PodList nil_clientset_world ''default'' None) = Returned [] [] (Some ''nil clientset'')
   \<and> \<not> request_constructed (snd (PodList nil_clientset_world ''default'' None))
   \<and> \<not> network_contact (snd (PodList nil_clientset_world ''default'' None))"
proof -
  have a: "fst (GetClusterClientConfig nil_config_world) = (None, None)"
    by (simp add: GetClusterClientConfig_def nil_config_world_def cluster_world_def)
  have b: "fst (GetClusterClientConfig nil_clientset_world) = (Some ''https://10.96.0.1:443'', None)"
    by (simp add: GetClusterClientConfig_def nil_clientset_world_def cluster_world_def)
  have c: "fst (GetClientsetFromClusterConfig nil_clientset_world (Some ''https://10.96.0.1:443''))
      = (None, None)"
    by (simp add: GetClientsetFromClusterConfig_def nil_clientset_world_def cluster_world_def)
  show ?thesis
    using PodList_nil_config_or_clientset [of nil_config_world "''default''" None]
      PodList_nil_config_or_clientset [of nil_clientset_world "''default''" None]
      a b c
    by simp
qed

text \<open>
  C7. When \<^verbatim>\<open>PodList\<close> gets as far as registering the scheme and the registration fails,
  it returns empty stdout and stderr with an error that holds the cause after
  \<^verbatim>\<open>error adding to scheme: \<close>. No executor has been made and no stream started, and the
  registration was tried once.
\<close>

theorem PodList_scheme_failure:
  assumes "AddToScheme_call \<in> set (snd (PodList w ns stdin))" and "AddToScheme w = Some e"
  shows "fst (PodList w ns stdin) = Returned [] [] (Some (''error adding to scheme: '' @ e))
     \<and> sublist e (''error adding to scheme: '' @ e)
     \<and> filter is_NewSPDYExecutor_call (snd (PodList w ns stdin)) = []
     \<and> \<not> entered_Streaming (snd (PodList w ns stdin))
     \<and> length (filter is_AddToScheme_call (snd (PodList w ns stdin))) = 1"
proof -
  obtain t1 t2 cs c where p: "PodList w ns stdin =
      (Returned [] [] (Some (''error adding to scheme: '' @ e)),
       t1 @ t2 @ [Request_call cs ''pods'' ns, AddToScheme_call, LogInfo ''Unable to add scheme''])"
    and t1: "t1 = snd (GetClusterClientConfig w)" and t2: "t2 = [NewForConfig_call c]"
    using PodList_scheme_phase [OF assms] by blast
  have f1: "filter is_NewSPDYExecutor_call t1 = [] \<and> filter is_StreamWithContext_call t1 = []
      \<and> filter is_AddToScheme_call t1 = []"
    using GetClusterClientConfig_trace [of w] t1 by auto
  have s: "sublist e (''error adding to scheme: '' @ e)"
    using sublist_appendI [of e "''error adding to scheme: ''" "[]"] by simp
  show ?thesis using p f1 t2 s by (simp add: entered_Streaming_def)
qed

theorem PodList_scheme_failure_witness:
  "fst (PodList bad_scheme_world ''default'' None)
     = Returned [] [] (Some ''error adding to scheme: type already registered'')
   \<and> filter is_NewSPDYExecutor_call (snd (PodList bad_scheme_world ''default'' None)) = []
   \<and> \<not> entered_Streaming (snd (PodList bad_scheme_world ''default'' None))"
proof -
  have tr: "snd (PodList bad_scheme_world ''default'' None) =
     [InClusterConfig_call, NewForConfig_call (Some ''https://10.96.0.1:443''),
      Request_call ''clientset of https://10.96.0.1:443'' ''pods'' ''default'', AddToScheme_call,
      LogInfo ''Unable to add scheme'']"
    by (simp add: PodList_def GetClusterClientConfig_def GetClientsetFromClusterConfig_def
        bad_scheme_world_def cluster_world_def Let_def)
  have a: "AddToScheme_call \<in> set (snd (PodList bad_scheme_world ''default'' None))"
    by (simp add: tr)
  have b: "AddToScheme bad_scheme_world = Some ''type already registered''"
    by (simp add: bad_scheme_world_def)
  from PodList_scheme_failure [OF a b] show ?thesis by simp
qed

text \<open>
  C2. Whenever \<^verbatim>\<open>PodList\<close> asks for the executor and \<^verbatim>\<open>NewSPDYExecutor\<close> fails, whatever
  the cause, the error returned is \<^verbatim>\<open>error while creating Executor: <nil>\<close>: the message
  is formatted from \<open>err\<close>, which is \<^verbatim>\<open>nil\<close> at that point, and not from \<open>spdyerr\<close>, so
  the cause is not in it.
\<close>

theorem PodList_executor_error_loses_cause:
  assumes "NewSPDYExecutor_call config m url \<in> set (snd (PodList w ns stdin))"
    and "snd (NewSPDYExecutor w config m url) = Some e"
  shows "fst (PodList w ns stdin) = Returned [] [] (Some ''error while creating Executor: <nil>'')"
proof -
  obtain cfg err t1 where g: "GetClusterClientConfig w = ((cfg, err), t1)"
    by (metis surj_pair)
  obtain clientset err2 t2 where c: "GetClientsetFromClusterConfig w cfg = ((clientset, err2), t2)"
    by (metis surj_pair)
  have t1: "NewSPDYExecutor_call config m url \<notin> set t1"
    using GetClusterClientConfig_trace [of w] g by auto
  have t2: "t2 = [NewForConfig_call cfg]"
    using GetClientsetFromClusterConfig_trace [of w cfg] c by auto
  show ?thesis
    using assms t1 t2 g c
    by (auto simp: PodList_def Let_def fmt_v_def split: prod.splits option.splits if_splits)
qed

theorem PodList_executor_error_loses_cause_witness:
  "NewSPDYExecutor bad_transport_world (Some ''https://10.96.0.1:443'') ''GET''
       ''/api/v1/namespaces/default/pods''
     = (None, Some ''tls: failed to find any PEM data in certificate input'')
   \<and> fst (PodList bad_transport_world ''default'' None)
     = Returned [] [] (Some ''error while creating Executor: <nil>'')
   \<and> \<not> sublist ''tls: failed to find any PEM data in certificate input''
         ''error while creating Executor: <nil>''"
proof -
  have tr: "snd (PodList bad_transport_world ''default'' None) =
     [InClusterConfig_call, NewForConfig_call (Some ''https://10.96.0.1:443''),
      Request_call ''clientset of https://10.96.0.1:443'' ''pods'' ''default'', AddToScheme_call,
      LogInfo ''Dumping request'',
      NewSPDYExecutor_call (Some ''https://10.96.0.1:443'') ''GET'' ''/api/v1/namespaces/default/pods'']"
    by (simp add: PodList_def GetClusterClientConfig_def GetClientsetFromClusterConfig_def
        bad_transport_world_def cluster_world_def Let_def)
  have a: "NewSPDYExecutor_call (Some ''https://10.96.0.1:443'') ''GET''
        ''/api/v1/namespaces/default/pods'' \<in> set (snd (PodList bad_transport_world ''default'' None))"
    by (simp add: tr)
  have b: "NewSPDYExecutor bad_transport_world (Some ''https://10.96.0.1:443'') ''GET''
       ''/api/v1/namespaces/default/pods''
     = (None, Some ''tls: failed to find any PEM data in certificate input'')"
    by (simp add: bad_transport_world_def)
  have b': "snd (NewSPDYExecutor bad_transport_world (Some ''https://10.96.0.1:443'') ''GET''
       ''/api/v1/namespaces/default/pods'')
     = Some ''tls: failed to find any PEM data in certificate input''"
    by (simp add: b)
  have n: "\<not> sublist ''tls: failed to find any PEM data in certificate input''
         ''error while creating Executor: <nil>''"
    by (simp add: sublist_Cons_right)
  from PodList_executor_error_loses_cause [OF a b'] b n show ?thesis by simp
qed

text \<open>
  C5, as the code has it. When \<^verbatim>\<open>StreamWithContext\<close> returns an error, whatever was
  delivered to the two buffers before, \<^verbatim>\<open>PodList\<close> returns empty stdout and stderr with
  an error that holds the cause after \<^verbatim>\<open>error in Stream: \<close>.
\<close>

theorem PodList_stream_failure_discards_output:
  assumes "StreamWithContext_call ex ctx i tty \<in> set (snd (PodList w ns stdin))"
    and "StreamWithContext w ex ctx i tty = (chunks, Some e)"
  shows "fst (PodList w ns stdin) = Returned [] [] (Some (''error in Stream: '' @ e))
     \<and> is_StreamError (Some (''error in Stream: '' @ e))
     \<and> sublist e (''error in Stream: '' @ e)"
proof -
  have "fst (PodList w ns stdin) = Returned [] [] (Some (''error in Stream: '' @ e))"
    using PodList_stream_phase [OF assms(1)] assms(2) by auto
  moreover have "is_StreamError (Some (''error in Stream: '' @ e))"
    by (simp add: is_StreamError_def)
  moreover have "sublist e (''error in Stream: '' @ e)"
    using sublist_appendI [of e "''error in Stream: ''" "[]"] by simp
  ultimately show ?thesis by simp
qed

theorem PodList_stream_failure_discards_output_witness:
  "StreamWithContext failed_status_world ''GET /api/v1/namespaces/default/pods'' Background None False
      = ([Stdout ''hel''], Some ''Internal error occurred'')
   \<and> fst (PodList failed_status_world ''default'' None)
      = Returned [] [] (Some ''error in Stream: Internal error occurred'')"
proof -
  have "StreamWithContext_call ''GET /api/v1/namespaces/default/pods'' Background None False
      \<in> set (snd (PodList failed_status_world ''default'' None))"
    by (simp add: failed_status_world_trace)
  from PodList_stream_failure_discards_output [OF this failed_status_world_stream] failed_status_world_stream
  show ?thesis by simp
qed

text \<open>
  C5, as the claim has it, fails. \<^verbatim>\<open>PodList\<close> learns of a failure of the session from
  the error of \<^verbatim>\<open>StreamWithContext\<close> alone. Where the connection drops after \<^verbatim>\<open>hel\<close> has
  arrived on stdout and the executor returns \<^verbatim>\<open>nil\<close>, the call returns the three bytes
  with no error.
\<close>

theorem PodList_returns_partial_output_on_drop:
  "StreamWithContext dropped_world ''GET /api/v1/namespaces/default/pods'' Background None False
      = ([Stdout ''hel''], None)
   \<and> entered_Streaming (snd (PodList dropped_world ''default'' None))
   \<and> fst (PodList dropped_world ''default'' None) = Returned ''hel'' [] None"
  by (simp add: PodList_def GetClusterClientConfig_def GetClientsetFromClusterConfig_def
        dropped_world_def cluster_world_def Let_def entered_Streaming_def Buffer_String_def
        Buffer_Write_def)

text \<open>
  C6. When the stream that \<^verbatim>\<open>PodList\<close> drives ends with no error, \<^verbatim>\<open>PodList\<close> returns a
  \<^verbatim>\<open>nil\<close> error, as stdout the bytes emitted on stdout and as stderr the bytes emitted on
  stderr, each stream in its own string. A session that emits \<^verbatim>\<open>hello\<close> and a newline on
  stdout and nothing on stderr gives that line, the empty string and \<^verbatim>\<open>nil\<close>.
\<close>

theorem PodList_clean_session_output:
  assumes "StreamWithContext_call ex ctx i tty \<in> set (snd (PodList w ns stdin))"
    and "StreamWithContext w ex ctx i tty = (chunks, None)"
  shows "fst (PodList w ns stdin) = Returned (emitted_stdout chunks) (emitted_stderr chunks) None"
  using PodList_stream_phase [OF assms(1)] assms(2) by auto

theorem PodList_clean_session_output_witness:
  "fst (PodList cluster_world ''default'' None) = Returned ''hello\<newline>'' [] None
   \<and> fst (PodList chatty_world ''default'' None) = Returned ''ab'' ''xy'' None"
proof -
  have st: "StreamWithContext cluster_world ''GET /api/v1/namespaces/default/pods'' Background None False
      = ([Stdout ''hello\<newline>''], None)"
    by (simp add: cluster_world_def)
  have tr: "StreamWithContext_call ''GET /api/v1/namespaces/default/pods'' Background None False
      \<in> set (snd (PodList cluster_world ''default'' None))"
    by (simp add: cluster_world_trace)
  have st': "StreamWithContext chatty_world ''GET /api/v1/namespaces/default/pods'' Background None False
      = ([Stdout ''a'', Stderr ''x'', Stdout ''b'', Stderr ''y''], None)"
    by (simp add: chatty_world_def cluster_world_def)
  have tr': "StreamWithContext_call ''GET /api/v1/namespaces/default/pods'' Background None False
      \<in> set (snd (PodList chatty_world ''default'' None))"
    by (simp add: chatty_world_trace)
  from PodList_clean_session_output [OF tr st] PodList_clean_session_output [OF tr' st']
  show ?thesis by simp
qed

text \<open>
  C1, as the code has it. \<^verbatim>\<open>PodList\<close> takes a namespace and a stdin and no cancellation
  signal. Every stream it drives runs on \<^verbatim>\<open>context.Background()\<close>, which is never done.
  An error that ends the stream, whatever its cause, comes back after
  \<^verbatim>\<open>error in Stream: \<close> like every other error of the streaming phase.
\<close>

theorem PodList_streams_on_Background:
  "set (stream_contexts (snd (PodList w ns stdin))) \<subseteq> {Background}
   \<and> \<not> ctx_done Background
   \<and> (StreamWithContext_call ex ctx i tty \<in> set (snd (PodList w ns stdin))
        \<and> StreamWithContext w ex ctx i tty = (chunks, Some e)
      \<longrightarrow> fst (PodList w ns stdin) = Returned [] [] (Some (''error in Stream: '' @ e))
          \<and> is_StreamError (Some (''error in Stream: '' @ e)))"
proof -
  have a: "set (stream_contexts (snd (PodList w ns stdin))) \<subseteq> {Background}"
  proof
    fix c assume "c \<in> set (stream_contexts (snd (PodList w ns stdin)))"
    then obtain ex' i' tty'
      where "StreamWithContext_call ex' c i' tty' \<in> set (snd (PodList w ns stdin))"
      using stream_contexts_mem by blast
    then show "c \<in> {Background}" using PodList_stream_phase by fastforce
  qed
  have b: "is_StreamError (Some (''error in Stream: '' @ e))"
    by (simp add: is_StreamError_def)
  have c: "StreamWithContext_call ex ctx i tty \<in> set (snd (PodList w ns stdin))
        \<and> StreamWithContext w ex ctx i tty = (chunks, Some e)
      \<longrightarrow> fst (PodList w ns stdin) = Returned [] [] (Some (''error in Stream: '' @ e))"
    using PodList_stream_phase [of ex ctx i tty w ns stdin] by auto
  from a b c show ?thesis by simp
qed

theorem PodList_streams_on_Background_witness:
  "stream_contexts (snd (PodList failed_status_world ''default'' None)) = [Background]
   \<and> fst (PodList failed_status_world ''default'' None)
       = Returned [] [] (Some ''error in Stream: Internal error occurred'')
   \<and> is_StreamError (Some ''error in Stream: Internal error occurred'')"
  using PodList_streams_on_Background
      [of failed_status_world "''default''" None "''GET /api/v1/namespaces/default/pods''"
          Background None False "[Stdout ''hel'']" "''Internal error occurred''"]
    failed_status_world_trace failed_status_world_stream
  by simp

text \<open>
  C1, as the claim has it, fails. A caller whose signal has fired calls \<^verbatim>\<open>PodList\<close> in
  the pod, where the executor would end a stream on a done context with
  \<^verbatim>\<open>context canceled\<close>. The signal cannot be passed: the call streams on the background
  context and returns the line of output with no error.
\<close>

theorem PodList_ignores_fired_signal:
  "ctx_done (Cancellable True)
   \<and> StreamWithContext cluster_world ''GET /api/v1/namespaces/default/pods'' (Cancellable True)
       None False = ([], Some ''context canceled'')
   \<and> fst (PodList cluster_world ''default'' None) = Returned ''hello\<newline>'' [] None
   \<and> entered_Streaming (snd (PodList cluster_world ''default'' None))
   \<and> stream_contexts (snd (PodList cluster_world ''default'' None)) = [Background]"
  by (simp add: PodList_def GetClusterClientConfig_def GetClientsetFromClusterConfig_def
        cluster_world_def Let_def entered_Streaming_def Buffer_String_def Buffer_Write_def)

end
